theory Spec2Isabelle
  imports Complex_Main "HOL-Library.Multiset" "HOL-Library.Log_Nat"
begin

section \<open>JavaScript numbers\<close>

text \<open>
  Every amount and balance of the hook is a JavaScript \<open>number\<close>, an IEEE 754 binary64
  value: \<open>NaN\<close>, the two infinities, or a finite value, carried here as the real number it
  denotes. The two zeros are one value: the hook never divides, and sums, products and
  negations give results that differ at most in the sign of a zero when the sign of a zero
  argument changes. Each operation computes the exact real result and rounds it once.
\<close>

datatype number = NaN | Infinity | MinusInfinity | Finite real

text \<open>\<open>floor_log2 a\<close> is the exponent \<open>e\<close> with \<open>2^e \<le> a < 2^(e+1)\<close>, for \<open>a > 0\<close>.\<close>

definition floor_log2 :: "real \<Rightarrow> int" where
  "floor_log2 a = (if a \<ge> 1 then bitlen \<lfloor>a\<rfloor> - 1 else - bitlen (\<lceil>1 / a\<rceil> - 1))"

text \<open>The nearest integer, the even one of the two when \<open>x\<close> lies half way.\<close>

definition round_half_even :: "real \<Rightarrow> int" where
  "round_half_even x =
     (let f = \<lfloor>x\<rfloor>; d = x - of_int f
      in if d < 1 / 2 then f else if d > 1 / 2 then f + 1 else if even f then f else f + 1)"

text \<open>
  Rounding to binary64, to nearest with ties to even: the magnitude is rounded to a multiple
  of \<open>2^p\<close>, where \<open>p\<close> leaves 53 significant bits and is at least \<open>-1074\<close> (the spacing of
  the subnormal numbers); a rounded magnitude of \<open>2^1024\<close> or more overflows to an infinity.
\<close>

definition round64 :: "real \<Rightarrow> number" where
  "round64 q =
     (if q = 0 then Finite 0
      else let a = \<bar>q\<bar>;
               p = max (floor_log2 a - 52) (- 1074);
               r = of_int (round_half_even (a / 2 powi p)) * 2 powi p
           in if r \<ge> 2 ^ 1024 then (if q > 0 then Infinity else MinusInfinity)
              else Finite (if q > 0 then r else - r))"

fun js_neg :: "number \<Rightarrow> number" where
  "js_neg NaN = NaN"
| "js_neg Infinity = MinusInfinity"
| "js_neg MinusInfinity = Infinity"
| "js_neg (Finite x) = Finite (- x)"

fun js_add :: "number \<Rightarrow> number \<Rightarrow> number" where
  "js_add (Finite x) (Finite y) = round64 (x + y)"
| "js_add NaN b = NaN"
| "js_add a NaN = NaN"
| "js_add Infinity MinusInfinity = NaN"
| "js_add MinusInfinity Infinity = NaN"
| "js_add Infinity b = Infinity"
| "js_add a Infinity = Infinity"
| "js_add MinusInfinity b = MinusInfinity"
| "js_add a MinusInfinity = MinusInfinity"

definition js_sub :: "number \<Rightarrow> number \<Rightarrow> number" where
  "js_sub a b = js_add a (js_neg b)"

fun js_mul :: "number \<Rightarrow> number \<Rightarrow> number" where
  "js_mul (Finite x) (Finite y) = round64 (x * y)"
| "js_mul NaN b = NaN"
| "js_mul a NaN = NaN"
| "js_mul (Finite x) Infinity =
     (if x = 0 then NaN else if x > 0 then Infinity else MinusInfinity)"
| "js_mul (Finite x) MinusInfinity =
     (if x = 0 then NaN else if x > 0 then MinusInfinity else Infinity)"
| "js_mul Infinity (Finite y) =
     (if y = 0 then NaN else if y > 0 then Infinity else MinusInfinity)"
| "js_mul MinusInfinity (Finite y) =
     (if y = 0 then NaN else if y > 0 then MinusInfinity else Infinity)"
| "js_mul Infinity Infinity = Infinity"
| "js_mul MinusInfinity MinusInfinity = Infinity"
| "js_mul Infinity MinusInfinity = MinusInfinity"
| "js_mul MinusInfinity Infinity = MinusInfinity"

text \<open>
  The calendar readings of a \<open>Date\<close> are whole numbers far below \<open>2^53\<close> (years within
  275760 of 1970, months from 0 to 11), where binary64 arithmetic is exact; they are
  integers here and \<open>js_int\<close> is the number an integer stands for.
\<close>

definition js_int :: "int \<Rightarrow> number" where
  "js_int k = round64 (of_int k)"

section \<open>Data model of the finance hook\<close>

text \<open>
  The ledger and its operations live in the hook \<open>useFinance\<close> (src/unnamed/part_001).
\<close>

datatype TransactionType = income | expense

datatype RecurrenceType = none | monthly | yearly

record Transaction =
  id_t :: string
  type_t :: TransactionType
  amount :: number
  date :: string
  description :: string
  recurrence :: RecurrenceType

record FinanceState =
  initialBalance :: number
  initialDate :: "string option"
  transactions :: "Transaction list"
  targetDate :: "string option"

text \<open>
  A \<open>Date\<close> object is known to the hook through three observations only: its time value
  (\<open>getTime\<close>, milliseconds since the epoch, which is what \<open>\<le>\<close> and \<open>>\<close> compare), and the
  calendar year and zero-based month in local time. The record holds these three readings of
  a valid date; the date strings of the ledger are written by \<open>toISOString\<close> (part_004 line
  47, TransactionList.tsx line 180), so they always parse. The constructor
  \<open>new Date(string)\<close> belongs to the runtime and is a parameter \<open>newDate\<close> of every function
  that calls it. The three readings are independent fields, so what is proved holds for
  whatever calendar and time zone the runtime reads a time value in.
\<close>

record Date =
  getTime :: int
  getFullYear :: int
  getMonth :: int

text \<open>\<open>date1 <= date2\<close> and \<open>date1 > date2\<close> on Date objects compare the time values.\<close>

definition date_le :: "Date \<Rightarrow> Date \<Rightarrow> bool" where
  "date_le date1 date2 = (getTime date1 \<le> getTime date2)"

definition date_gt :: "Date \<Rightarrow> Date \<Rightarrow> bool" where
  "date_gt date1 date2 = (getTime date1 > getTime date2)"

definition date_ge :: "Date \<Rightarrow> Date \<Rightarrow> bool" where
  "date_ge date1 date2 = (getTime date1 \<ge> getTime date2)"

definition getMonthsBetween :: "Date \<Rightarrow> Date \<Rightarrow> int" where
  "getMonthsBetween startD endD =
     (getFullYear endD - getFullYear startD) * 12 + (getMonth endD - getMonth startD)"

definition getYearsBetween :: "Date \<Rightarrow> Date \<Rightarrow> int" where
  "getYearsBetween startD endD = getFullYear endD - getFullYear startD"

text \<open>The state the hook starts from, and the one \<open>clearAllData\<close> writes.\<close>

definition emptyState :: FinanceState where
  "emptyState =
     \<lparr>initialBalance = Finite 0, initialDate = None, transactions = [], targetDate = None\<rparr>"

text \<open>
  \<open>!state.initialDate\<close> holds for \<open>null\<close> and for the empty string, the two falsy values of
  the type \<open>string | null\<close>.
\<close>

definition falsy :: "string option \<Rightarrow> bool" where
  "falsy v = (case v of None \<Rightarrow> True | Some s \<Rightarrow> s = [])"

section \<open>The balance projection\<close>

definition calculateRecurringAmount :: "Transaction \<Rightarrow> Date \<Rightarrow> Date \<Rightarrow> number" where
  "calculateRecurringAmount transaction startDate endDate =
     (let amnt = (if type_t transaction = income then amount transaction
                  else js_neg (amount transaction))
      in case recurrence transaction of
           none \<Rightarrow> amnt
         | monthly \<Rightarrow> js_mul amnt (js_int (getMonthsBetween startDate endDate + 1))
         | yearly \<Rightarrow> js_mul amnt (js_int (getYearsBetween startDate endDate + 1)))"

text \<open>
  The body of the \<open>forEach\<close> callback of \<open>getBalanceAtDate\<close>, as a function of the
  transaction and the running \<open>balance\<close>; the early \<open>return\<close> leaves the balance as it is.
  The source also binds \<open>const initialDate = new Date(state.initialDate)\<close> and never reads
  it; the model has no counterpart for a binding without a use.
\<close>

definition forEach_body :: "(string \<Rightarrow> Date) \<Rightarrow> Date \<Rightarrow> Transaction \<Rightarrow> number \<Rightarrow> number" where
  "forEach_body newDate target transaction balance =
     (let transactionDate = newDate (date transaction) in
      if recurrence transaction = none \<and> date_gt transactionDate target then balance
      else if recurrence transaction \<noteq> none then
        (if date_le transactionDate target
         then js_add balance (calculateRecurringAmount transaction transactionDate target)
         else balance)
      else
        (if date_le transactionDate target
         then js_add balance (if type_t transaction = income then amount transaction
                              else js_neg (amount transaction))
         else balance))"

definition getBalanceAtDate :: "(string \<Rightarrow> Date) \<Rightarrow> FinanceState \<Rightarrow> Date \<Rightarrow> number" where
  "getBalanceAtDate newDate state target =
     (if falsy (initialDate state) then Finite 0
      else fold (forEach_body newDate target) (transactions state) (initialBalance state))"

section \<open>Ledger mutations\<close>

text \<open>
  Each operation computes \<open>newState\<close> from the state it is given, installs it with
  \<open>setState\<close> and hands it to \<open>saveData\<close>, which catches every storage error. The functions
  below are the \<open>newState\<close> of each operation; none of them has a failing branch.
\<close>

text \<open>
  \<open>Number.prototype.toString(radix)\<close> on a non-negative integer, for the radices the source
  uses (10 and 36).
\<close>

definition digit_char :: "nat \<Rightarrow> char" where
  "digit_char d = ''0123456789abcdefghijklmnopqrstuvwxyz'' ! (d mod 36)"

function toStringRadix :: "nat \<Rightarrow> nat \<Rightarrow> string" where
  "toStringRadix radix n =
     (if radix < 2 \<or> n < radix then [digit_char n]
      else toStringRadix radix (n div radix) @ [digit_char (n mod radix)])"
  by pat_completeness auto
termination
  by (relation "measure (\<lambda>(radix, n). n)") auto

declare toStringRadix.simps [simp del]

text \<open>
  \<open>generateId\<close> reads two values that the ledger does not determine: the text of
  \<open>Math.random().toString(36)\<close> (\<open>rnd\<close>) and the clock \<open>Date.now()\<close> (\<open>now\<close>). They are
  arguments of the model.
\<close>

definition generateId :: "string \<Rightarrow> nat \<Rightarrow> string" where
  "generateId rnd now = drop 2 rnd @ toStringRadix 36 now"

text \<open>A draft is a transaction without its id (\<open>Omit<Transaction, 'id'>\<close>).\<close>

record Draft =
  d_type :: TransactionType
  d_amount :: number
  d_date :: string
  d_description :: string
  d_recurrence :: RecurrenceType

definition addTransaction :: "string \<Rightarrow> nat \<Rightarrow> FinanceState \<Rightarrow> Draft \<Rightarrow> FinanceState" where
  "addTransaction rnd now state transaction =
     (let newTransaction =
            \<lparr>id_t = generateId rnd now, type_t = d_type transaction,
             amount = d_amount transaction, date = d_date transaction,
             description = d_description transaction,
             recurrence = d_recurrence transaction\<rparr>
      in state\<lparr>transactions := transactions state @ [newTransaction]\<rparr>)"

definition deleteTransaction :: "FinanceState \<Rightarrow> string \<Rightarrow> FinanceState" where
  "deleteTransaction state i =
     state\<lparr>transactions := filter (\<lambda>t. id_t t \<noteq> i) (transactions state)\<rparr>"

definition setInitialBalance :: "FinanceState \<Rightarrow> number \<Rightarrow> string \<Rightarrow> FinanceState" where
  "setInitialBalance state balance d = state\<lparr>initialBalance := balance, initialDate := Some d\<rparr>"

definition setTargetDate :: "FinanceState \<Rightarrow> string option \<Rightarrow> FinanceState" where
  "setTargetDate state d = state\<lparr>targetDate := d\<rparr>"

definition clearAllData :: "FinanceState \<Rightarrow> FinanceState" where
  "clearAllData state = emptyState"

text \<open>
  The four mutations as commands, the \<open>AddTransaction\<close> command carrying the two readings
  that \<open>generateId\<close> takes from the runtime.
\<close>

datatype Op =
  AddTransaction string nat Draft
| DeleteTransaction string
| SetInitialBalance number string
| ClearAll

fun apply_op :: "FinanceState \<Rightarrow> Op \<Rightarrow> FinanceState" where
  "apply_op state (AddTransaction rnd now transaction) = addTransaction rnd now state transaction"
| "apply_op state (DeleteTransaction i) = deleteTransaction state i"
| "apply_op state (SetInitialBalance balance d) = setInitialBalance state balance d"
| "apply_op state ClearAll = clearAllData state"

text \<open>
  Each render of the hook binds \<open>state\<close> once, and the operations it hands out build
  \<open>newState\<close> from that binding and install it with \<open>setState\<close>. So of the calls issued
  through one render only the last one takes effect: each overwrites what the one before
  installed. A history is a list of renders, each with the calls issued through it;
  \<open>effective\<close> keeps the call that takes effect in each render, and \<open>run\<close> applies them in
  turn, the state a call installs being the state the next render binds.
\<close>

definition effective :: "Op list list \<Rightarrow> Op list" where
  "effective renders = map last (filter (\<lambda>calls. calls \<noteq> []) renders)"

definition run :: "FinanceState \<Rightarrow> Op list list \<Rightarrow> FinanceState" where
  "run state renders = foldl apply_op state (effective renders)"

text \<open>
  What the additions of a command sequence read from the runtime: the random text without
  its first two characters, and the clock; \<open>draw_id\<close> is the id \<open>generateId\<close> makes of them.
\<close>

definition draw_id :: "string \<times> nat \<Rightarrow> string" where
  "draw_id d = fst d @ toStringRadix 36 (snd d)"

fun draws :: "Op list \<Rightarrow> (string \<times> nat) list" where
  "draws [] = []"
| "draws (AddTransaction rnd now transaction # ops) = (drop 2 rnd, now) # draws ops"
| "draws (c # ops) = draws ops"

section \<open>The chart's monthly aggregation\<close>

text \<open>
  From \<open>ChartsScreen\<close> (src/unnamed/part_000, lines 97 and 108 to 124): the transactions
  not older than the cut-off date are reduced into one bucket per month key
  \<open>YYYY-MM\<close>. The object \<open>acc\<close> is a map from keys to buckets.
\<close>

record MonthBucket =
  income_m :: number
  expense_m :: number
  balance_m :: number

definition String_int :: "int \<Rightarrow> string" where
  "String_int n =
     (if n < 0 then ''-'' @ toStringRadix 10 (nat (- n)) else toStringRadix 10 (nat n))"

definition padStart :: "nat \<Rightarrow> char \<Rightarrow> string \<Rightarrow> string" where
  "padStart targetLength c s = replicate (targetLength - length s) c @ s"

definition monthKey :: "Date \<Rightarrow> string" where
  "monthKey d =
     String_int (getFullYear d) @ ''-'' @ padStart 2 (CHR ''0'') (String_int (getMonth d + 1))"

definition filteredTransactions ::
    "(string \<Rightarrow> Date) \<Rightarrow> Date \<Rightarrow> Transaction list \<Rightarrow> Transaction list" where
  "filteredTransactions newDate cutoffDate ts =
     filter (\<lambda>t. date_ge (newDate (date t)) cutoffDate) ts"

definition monthlyData_step ::
    "(string \<Rightarrow> Date) \<Rightarrow> (string \<rightharpoonup> MonthBucket) \<Rightarrow> Transaction \<Rightarrow> (string \<rightharpoonup> MonthBucket)" where
  "monthlyData_step newDate acc t =
     (let k = monthKey (newDate (date t));
          cur = (case acc k of
                   None \<Rightarrow> \<lparr>income_m = Finite 0, expense_m = Finite 0, balance_m = Finite 0\<rparr>
                 | Some b \<Rightarrow> b);
          upd = (if type_t t = income then cur\<lparr>income_m := js_add (income_m cur) (amount t)\<rparr>
                 else cur\<lparr>expense_m := js_add (expense_m cur) (amount t)\<rparr>)
      in acc(k \<mapsto> upd\<lparr>balance_m := js_sub (income_m upd) (expense_m upd)\<rparr>))"

definition monthlyData ::
    "(string \<Rightarrow> Date) \<Rightarrow> Transaction list \<Rightarrow> (string \<rightharpoonup> MonthBucket)" where
  "monthlyData newDate ts = foldl (monthlyData_step newDate) Map.empty ts"

section \<open>The projection in the words of the specification\<close>

text \<open>
  Section 4.1 of the specification: the signed amount is \<open>+amount\<close> for Income and
  \<open>-amount\<close> for Expense; \<open>monthsBetween\<close> is year*12+month arithmetic that ignores the day
  of the month, \<open>yearsBetween\<close> the difference of the calendar years; a transaction is
  included when it is dated on or before the target, and then contributes its signed amount
  when it does not recur and its signed amount times the number of started periods when it
  does. Sums and products are the ones of the number type.
\<close>

definition spec_signedAmount :: "Transaction \<Rightarrow> number" where
  "spec_signedAmount t = (case type_t t of income \<Rightarrow> amount t | expense \<Rightarrow> js_neg (amount t))"

definition spec_monthsBetween :: "Date \<Rightarrow> Date \<Rightarrow> int" where
  "spec_monthsBetween a b = (getFullYear b * 12 + getMonth b) - (getFullYear a * 12 + getMonth a)"

definition spec_yearsBetween :: "Date \<Rightarrow> Date \<Rightarrow> int" where
  "spec_yearsBetween a b = getFullYear b - getFullYear a"

definition spec_included :: "(string \<Rightarrow> Date) \<Rightarrow> Date \<Rightarrow> Transaction \<Rightarrow> bool" where
  "spec_included newDate target t = date_le (newDate (date t)) target"

definition spec_contribution :: "(string \<Rightarrow> Date) \<Rightarrow> Date \<Rightarrow> Transaction \<Rightarrow> number" where
  "spec_contribution newDate target t =
     (case recurrence t of
        none \<Rightarrow> spec_signedAmount t
      | monthly \<Rightarrow>
          js_mul (spec_signedAmount t) (js_int (spec_monthsBetween (newDate (date t)) target + 1))
      | yearly \<Rightarrow>
          js_mul (spec_signedAmount t) (js_int (spec_yearsBetween (newDate (date t)) target + 1)))"

section \<open>The scenario of the specification\<close>

text \<open>
  Section 8: initial balance 1000 on 2024-01-01, an income of 500 on 2024-02-01, a monthly
  expense of 200 from 2024-01-01. The date strings are the ones \<open>toISOString\<close> writes;
  \<open>scenario_newDate\<close> gives the runtime's reading of them in a UTC environment (no other
  string occurs in the scenario). Each call is issued through a render of its own.
\<close>

abbreviation jan1 :: string where
  "jan1 \<equiv> ''2024-01-01T00:00:00.000Z''"

abbreviation feb1 :: string where
  "feb1 \<equiv> ''2024-02-01T00:00:00.000Z''"

abbreviation mar1 :: string where
  "mar1 \<equiv> ''2024-03-01T00:00:00.000Z''"

definition scenario_newDate :: "string \<Rightarrow> Date" where
  "scenario_newDate s =
     (if s = jan1
        then \<lparr>getTime = 1704067200000, getFullYear = 2024, getMonth = 0\<rparr>
      else if s = feb1
        then \<lparr>getTime = 1706745600000, getFullYear = 2024, getMonth = 1\<rparr>
      else if s = mar1
        then \<lparr>getTime = 1709251200000, getFullYear = 2024, getMonth = 2\<rparr>
      else \<lparr>getTime = 0, getFullYear = 1970, getMonth = 0\<rparr>)"

definition income500 :: Draft where
  "income500 = \<lparr>d_type = income, d_amount = Finite 500, d_date = feb1,
                 d_description = ''salary'', d_recurrence = none\<rparr>"

definition expense200 :: Draft where
  "expense200 = \<lparr>d_type = expense, d_amount = Finite 200, d_date = jan1,
                  d_description = ''rent'', d_recurrence = monthly\<rparr>"

definition scenario_ledger :: FinanceState where
  "scenario_ledger =
     run emptyState
       [[SetInitialBalance (Finite 1000) jan1],
        [AddTransaction ''0.4fzyo82mvyr'' 1717236000000 income500],
        [AddTransaction ''0.k3j9x1c07q'' 1717236060000 expense200]]"

definition late_anchor_ledger :: FinanceState where
  "late_anchor_ledger =
     run emptyState
       [[SetInitialBalance (Finite 1000) mar1],
        [AddTransaction ''0.k3j9x1c07q'' 1717236060000 expense200]]"

text \<open>The chart of the scenario with the range \<open>ALL\<close>: a cut-off before every date.\<close>

definition scenario_chart :: "string \<rightharpoonup> MonthBucket" where
  "scenario_chart =
     monthlyData scenario_newDate
       (filteredTransactions scenario_newDate
          \<lparr>getTime = 0, getFullYear = 1970, getMonth = 0\<rparr> (transactions scenario_ledger))"

text \<open>
  The bucket of a month key when every transaction counts in the month of its own date
  and nowhere else: starting from 0, the incomes and the expenses dated in that month are
  added up in the order of the list, and a month without a transaction has no bucket.
\<close>

definition spec_monthBucket ::
    "(string \<Rightarrow> Date) \<Rightarrow> Transaction list \<Rightarrow> string \<Rightarrow> MonthBucket option" where
  "spec_monthBucket newDate ts k =
     (let ms = filter (\<lambda>t. monthKey (newDate (date t)) = k) ts;
          inc = foldl js_add (Finite 0) (map amount (filter (\<lambda>t. type_t t = income) ms));
          exp = foldl js_add (Finite 0) (map amount (filter (\<lambda>t. type_t t \<noteq> income) ms))
      in if ms = [] then None
         else Some \<lparr>income_m = inc, expense_m = exp, balance_m = js_sub inc exp\<rparr>)"

text \<open>
  Three incomes of 0.1, 0.2 and 0.3, as \<open>parseFloat\<close> reads them: the binary64 values
  nearest to the decimal fractions.
\<close>

definition tenth :: number where
  "tenth = Finite (3602879701896397 / 36028797018963968)"

definition two_tenths :: number where
  "two_tenths = Finite (3602879701896397 / 18014398509481984)"

definition three_tenths :: number where
  "three_tenths = Finite (5404319552844595 / 18014398509481984)"

definition tenths_ledger :: FinanceState where
  "tenths_ledger =
     run emptyState
       [[SetInitialBalance (Finite 0) jan1],
        [AddTransaction ''0.4fzyo82mvyr'' 1717236000000
           \<lparr>d_type = income, d_amount = tenth, d_date = jan1,
            d_description = ''a'', d_recurrence = none\<rparr>],
        [AddTransaction ''0.k3j9x1c07q'' 1717236060000
           \<lparr>d_type = income, d_amount = two_tenths, d_date = jan1,
            d_description = ''b'', d_recurrence = none\<rparr>],
        [AddTransaction ''0.9zq1m4t8wd'' 1717236120000
           \<lparr>d_type = income, d_amount = three_tenths, d_date = jan1,
            d_description = ''c'', d_recurrence = none\<rparr>]]"

section \<open>Rounding\<close>

lemma bitlen_eqI:
  assumes "2 ^ n \<le> x" and "x < 2 ^ Suc n"
  shows "bitlen x = int n + 1"
proof (rule antisym)
  show "bitlen x \<le> int n + 1"
    using assms(2) by (simp add: bitlen_le_iff_power nat_add_distrib)
  show "int n + 1 \<le> bitlen x"
    using assms(1) by (simp add: bitlen_ge_iff_power nat_add_distrib)
qed

lemma floor_log2_eqI:
  assumes "2 powi e \<le> a" and "a < 2 powi (e + 1)"
  shows "floor_log2 a = e"
proof (cases "0 \<le> e")
  case True
  define n where "n = nat e"
  have e: "e = int n" using True by (simp add: n_def)
  have a1: "1 \<le> a" using assms(1) True
    by (smt (verit) one_le_power_int)
  have lo: "(2::real) ^ n \<le> a" using assms(1) by (simp add: e)
  have hi: "a < (2::real) ^ Suc n" using assms(2) by (simp add: e power_int_add)
  have "(2::int) ^ n \<le> \<lfloor>a\<rfloor>"
    using lo by (simp add: le_floor_iff)
  moreover have "\<lfloor>a\<rfloor> < (2::int) ^ Suc n"
    using hi by (simp add: floor_less_iff)
  ultimately have "bitlen \<lfloor>a\<rfloor> = int n + 1" by (rule bitlen_eqI)
  then show ?thesis using a1 by (simp add: floor_log2_def e)
next
  case False
  define n where "n = nat (- e - 1)"
  have e: "e = - int n - 1" using False by (simp add: n_def)
  have apos: "0 < a" using assms(1) by (smt (verit) zero_less_power_int)
  have "e = - int (Suc n)" by (simp add: e)
  then have p1: "(2::real) powi e = 1 / 2 ^ Suc n"
    by (simp only: power_int_minus_divide power_int_of_nat)
  have p2: "(2::real) powi (e + 1) = 1 / 2 ^ n"
    by (simp add: e power_int_minus_divide)
  have lt1: "a < 1" using assms(2) unfolding p2
    by (smt (verit) divide_le_eq_1_pos one_le_power zero_less_power)
  have lo: "1 / a \<le> 2 ^ Suc n"
    using assms(1) apos unfolding p1 by (simp add: field_simps)
  have hi: "2 ^ n < 1 / a"
    using assms(2) apos unfolding p2 by (simp add: field_simps)
  have "\<lceil>1 / a\<rceil> \<le> (2::int) ^ Suc n"
    using lo by (simp add: ceiling_le_iff)
  moreover have "(2::int) ^ n < \<lceil>1 / a\<rceil>"
    using hi by (simp add: less_ceiling_iff)
  ultimately have "bitlen (\<lceil>1 / a\<rceil> - 1) = int n + 1"
    by (intro bitlen_eqI) auto
  then show ?thesis using lt1 by (simp add: floor_log2_def e)
qed

lemma round_half_even_eqI:
  assumes "\<bar>x - of_int m\<bar> < 1 / 2 \<or> (\<bar>x - of_int m\<bar> = 1 / 2 \<and> even m)"
  shows "round_half_even x = m"
proof -
  define f where "f = \<lfloor>x\<rfloor>"
  have f1: "of_int f \<le> x" and f2: "x < of_int f + 1"
    by (simp_all add: f_def)
  from assms have "\<bar>x - of_int m\<bar> \<le> 1 / 2" by auto
  with f1 f2 have "real_of_int m < of_int (f + 2)" and "real_of_int (f - 1) < of_int m"
    by (simp_all add: abs_if split: if_splits)
  then have "m < f + 2" and "f - 1 < m"
    by (simp_all only: of_int_less_iff)
  then consider "m = f" | "m = f + 1" by linarith
  then show ?thesis
  proof cases
    case 1
    with assms f1 have "x - of_int f < 1 / 2 \<or> (x - of_int f = 1 / 2 \<and> even f)"
      by (auto simp: abs_if split: if_splits)
    then show ?thesis
      unfolding round_half_even_def Let_def f_def [symmetric] using 1 by auto
  next
    case 2
    with assms f2 have "x - of_int f > 1 / 2 \<or> (x - of_int f = 1 / 2 \<and> odd f)"
      by (auto simp: abs_if split: if_splits)
    then show ?thesis
      unfolding round_half_even_def Let_def f_def [symmetric] using 2 by auto
  qed
qed

lemma round64_eqI:
  assumes "q \<noteq> 0"
    and "2 powi e \<le> \<bar>q\<bar>" and "\<bar>q\<bar> < 2 powi (e + 1)"
    and "p = max (e - 52) (- 1074)"
    and "\<bar>\<bar>q\<bar> / 2 powi p - of_int m\<bar> < 1 / 2
         \<or> (\<bar>\<bar>q\<bar> / 2 powi p - of_int m\<bar> = 1 / 2 \<and> even m)"
  shows "round64 q =
           (if of_int m * 2 powi p \<ge> (2::real) ^ 1024
            then (if q > 0 then Infinity else MinusInfinity)
            else Finite (if q > 0 then of_int m * 2 powi p else - (of_int m * 2 powi p)))"
proof -
  have "floor_log2 \<bar>q\<bar> = e"
    using assms(2,3) by (rule floor_log2_eqI)
  moreover have "round_half_even (\<bar>q\<bar> / 2 powi p) = m"
    using assms(5) by (rule round_half_even_eqI)
  ultimately show ?thesis
    using assms(1) by (simp only: round64_def Let_def assms(4) [symmetric] if_False)
qed

text \<open>
  Every binary64 value is a multiple \<open>k * 2^g\<close> with \<open>\<bar>k\<bar> < 2^53\<close> and \<open>g\<close> from \<open>-1074\<close> to
  971; rounding leaves each of them as it is.
\<close>

lemma round64_grid:
  assumes "\<bar>k\<bar> < 2 ^ 53" and "- 1074 \<le> g" and "g \<le> 971"
  shows "round64 (of_int k * 2 powi g) = Finite (of_int k * 2 powi g)"
proof (cases "k = 0")
  case True
  then show ?thesis by (simp add: round64_def)
next
  case False
  define a where "a = \<bar>k\<bar>"
  define q where "q = real_of_int k * 2 powi g"
  have a0: "0 < a" using False by (simp add: a_def)
  define n where "n = nat (bitlen a - 1)"
  from bitlen_bounds [OF a0] have lo: "2 ^ n \<le> a" and hi: "a < 2 ^ nat (bitlen a)"
    by (simp_all add: n_def)
  have b1: "1 \<le> bitlen a" using a0 by (simp add: bitlen_ge_iff_power)
  then have "nat (bitlen a) = Suc n" unfolding n_def by linarith
  with hi have hi': "a < 2 ^ Suc n" by simp
  have n52: "n \<le> 52"
  proof (rule ccontr)
    assume "\<not> n \<le> 52"
    then have "53 \<le> n" by simp
    then have "(2::int) ^ 53 \<le> 2 ^ n" by (rule power_increasing) simp
    with lo assms(1) show False by (simp add: a_def)
  qed
  have g0: "(0::real) < 2 powi g" by simp
  have absq: "\<bar>q\<bar> = of_int a * 2 powi g"
    by (simp add: q_def a_def abs_mult)
  from lo have lo_r: "(2::real) ^ n \<le> real_of_int a"
    by (metis of_int_le_iff of_int_numeral of_int_power)
  from hi' have hi_r: "real_of_int a < 2 ^ Suc n"
    by (metis of_int_less_iff of_int_numeral of_int_power)
  have pa: "(2::real) powi (int n + g) = 2 ^ n * 2 powi g"
    by (simp add: power_int_add)
  have pb: "(2::real) powi (int n + g + 1) = 2 ^ Suc n * 2 powi g"
    by (simp add: power_int_add)
  have e1: "2 powi (int n + g) \<le> \<bar>q\<bar>"
    unfolding absq pa using lo_r g0 by (simp add: mult_right_mono)
  have e2: "\<bar>q\<bar> < 2 powi (int n + g + 1)"
    unfolding absq pb using hi_r g0 by (simp add: mult_strict_right_mono)
  define p where "p = max (int n + g - 52) (- 1074)"
  have pg: "p \<le> g" using n52 assms(2) by (simp add: p_def)
  define d where "d = nat (g - p)"
  have gd: "g = p + int d" using pg by (simp add: d_def)
  have pw: "(2::real) powi g = 2 powi p * 2 ^ d"
    by (simp add: gd power_int_add)
  define m where "m = a * 2 ^ d"
  have p0: "(2::real) powi p \<noteq> 0" by simp
  have sc: "\<bar>q\<bar> / 2 powi p = of_int m"
    unfolding absq pw m_def using p0 by simp
  have rb: "real_of_int m * 2 powi p = of_int a * 2 powi g"
    unfolding pw m_def by simp
  have small: "\<not> (2::real) ^ 1024 \<le> of_int a * 2 powi g"
  proof -
    from assms(1) have "a < 2 ^ 53" by (simp add: a_def)
    then have "real_of_int a < 2 ^ 53"
      by (metis of_int_less_iff of_int_numeral of_int_power)
    then have "real_of_int a * 2 powi g < 2 ^ 53 * 2 powi g"
      using g0 by (simp add: mult_strict_right_mono)
    also have "(2::real) powi g \<le> 2 powi 971"
      using assms(3) by (intro power_int_increasing) simp_all
    then have "(2::real) ^ 53 * 2 powi g \<le> 2 ^ 53 * 2 powi 971"
      by (simp add: mult_left_mono)
    also have "(2::real) ^ 53 * 2 powi 971 = 2 ^ 1024"
      by (simp flip: power_add)
    finally show ?thesis by simp
  qed
  have h1: "q \<noteq> 0" using False by (simp add: q_def)
  have h4: "p = max (int n + g - 52) (- 1074)" by (rule p_def)
  have h5: "\<bar>\<bar>q\<bar> / 2 powi p - of_int m\<bar> < 1 / 2
         \<or> (\<bar>\<bar>q\<bar> / 2 powi p - of_int m\<bar> = 1 / 2 \<and> even m)"
    by (simp add: sc)
  have ng: "\<not> (2::real) powi g < 0" by (simp add: not_less)
  have sgn: "(0 < q) = (0 < k)"
    by (simp add: q_def zero_less_mult_iff ng)
  have val: "(if 0 < q then real_of_int a * 2 powi g else - (real_of_int a * 2 powi g)) = q"
    unfolding sgn using False by (simp add: q_def a_def abs_if)
  from round64_eqI [OF h1 e1 e2 h4 h5] small val show ?thesis
    unfolding rb q_def [symmetric] by simp
qed

lemma round64_int:
  assumes "\<bar>k\<bar> < 2 ^ 53"
  shows "round64 (of_int k) = Finite (of_int k)"
  using round64_grid [OF assms, of 0] by simp

lemma js_mul_one:
  assumes "\<bar>k\<bar> < 2 ^ 53" and "- 1074 \<le> g" and "g \<le> 971"
  shows "js_mul (Finite (of_int k * 2 powi g)) (Finite 1) = Finite (of_int k * 2 powi g)"
  using round64_grid [OF assms] by simp

lemma round64_numeral:
  "numeral w < (2::real) ^ 53 \<Longrightarrow> round64 (numeral w) = Finite (numeral w)"
  "numeral w < (2::real) ^ 53 \<Longrightarrow> round64 (- numeral w) = Finite (- numeral w)"
proof -
  assume "numeral w < (2::real) ^ 53"
  then have "real_of_int (numeral w) < real_of_int (2 ^ 53)" by simp
  then have b: "(numeral w :: int) < 2 ^ 53" by (simp only: of_int_less_iff)
  from b have "\<bar>numeral w :: int\<bar> < 2 ^ 53" by simp
  from round64_int [OF this] show "round64 (numeral w) = Finite (numeral w)" by simp
  from b have "\<bar>- numeral w :: int\<bar> < 2 ^ 53" by simp
  from round64_int [OF this] show "round64 (- numeral w) = Finite (- numeral w)" by simp
qed

lemma round64_0_1 [simp]: "round64 0 = Finite 0" "round64 1 = Finite 1"
  using round64_int [of 0] round64_int [of 1] by simp_all

lemma js_int_exact: "\<bar>k\<bar> < 2 ^ 53 \<Longrightarrow> js_int k = Finite (of_int k)"
  by (simp add: js_int_def round64_int)

subsection \<open>The arithmetic at known values\<close>

lemma parse_tenths:
  "round64 (1 / 10) = tenth"
  "round64 (2 / 10) = two_tenths"
  "round64 (3 / 10) = three_tenths"
  by (simp_all add: tenth_def two_tenths_def three_tenths_def
        round64_eqI [where e = "- 4" and m = 7205759403792794]
        round64_eqI [where e = "- 3" and m = 7205759403792794]
        round64_eqI [where e = "- 2" and m = 5404319552844595])

lemma tenths_forwards:
  "js_add (Finite 0) tenth = tenth"
  "js_add tenth two_tenths = Finite (5404319552844596 / 18014398509481984)"
  "js_add (Finite (5404319552844596 / 18014398509481984)) three_tenths
     = Finite (5404319552844596 / 9007199254740992)"
  by (simp_all add: tenth_def two_tenths_def three_tenths_def
        round64_eqI [where e = "- 4" and m = 7205759403792794]
        round64_eqI [where e = "- 2" and m = 5404319552844596]
        round64_eqI [where e = "- 1" and m = 5404319552844596])

lemma tenths_backwards:
  "js_add (Finite 0) three_tenths = three_tenths"
  "js_add three_tenths two_tenths = Finite (1 / 2)"
  "js_add (Finite (1 / 2)) tenth = Finite (5404319552844595 / 9007199254740992)"
  by (simp_all add: tenth_def two_tenths_def three_tenths_def
        round64_eqI [where e = "- 2" and m = 5404319552844595]
        round64_eqI [where e = "- 1" and m = 4503599627370496]
        round64_eqI [where e = "- 1" and m = 5404319552844595])

lemma tenth_times_three:
  "js_mul tenth (js_int 3) = Finite (5404319552844596 / 18014398509481984)"
  by (simp add: tenth_def js_int_exact
        round64_eqI [where e = "- 2" and m = 5404319552844596])

lemma absorbed_unit: "js_add (Finite (2 ^ 53)) (Finite 1) = Finite (2 ^ 53)"
  by (simp add: round64_eqI [where e = 53 and m = 4503599627370496])

lemma overflow_product: "js_mul (Finite (2 ^ 1023)) (Finite 2) = Infinity"
  by (simp add: round64_eqI [where e = 1024 and m = 4503599627370496])

section \<open>The projection, transaction by transaction\<close>

lemma falsy_Some: "falsy (Some i) = (i = [])"
  by (simp add: falsy_def)

lemma getBalanceAtDate_falsy:
  "falsy (initialDate state) \<Longrightarrow> getBalanceAtDate newDate state target = Finite 0"
  by (simp add: getBalanceAtDate_def)

lemma date_gt_iff: "date_gt a b = (\<not> date_le a b)"
  by (auto simp: date_gt_def date_le_def)

lemma spec_monthsBetween_eq: "spec_monthsBetween a b = getMonthsBetween a b"
  by (simp add: spec_monthsBetween_def getMonthsBetween_def algebra_simps)

lemma spec_yearsBetween_eq: "spec_yearsBetween a b = getYearsBetween a b"
  by (simp add: spec_yearsBetween_def getYearsBetween_def)

lemma forEach_body_contribution:
  "forEach_body newDate target t balance =
     (if spec_included newDate target t
      then js_add balance (spec_contribution newDate target t) else balance)"
  by (cases "recurrence t"; cases "type_t t")
     (simp_all add: forEach_body_def spec_included_def spec_contribution_def
        calculateRecurringAmount_def spec_signedAmount_def spec_monthsBetween_eq
        spec_yearsBetween_eq date_gt_iff Let_def)

lemma fold_forEach_body:
  "fold (forEach_body newDate target) ts balance =
     foldl js_add balance
       (map (spec_contribution newDate target) (filter (spec_included newDate target) ts))"
  by (induction ts arbitrary: balance) (simp_all add: forEach_body_contribution)

lemma getBalanceAtDate_split:
  assumes "initialDate state = Some i" and "i \<noteq> []"
    and "transactions state = pre @ t # post"
  shows "getBalanceAtDate newDate state target =
           fold (forEach_body newDate target) post
             (forEach_body newDate target t
                (getBalanceAtDate newDate (state\<lparr>transactions := pre\<rparr>) target))"
  using assms by (simp add: getBalanceAtDate_def falsy_Some)

lemma getBalanceAtDate_skip:
  assumes "transactions state = pre @ t # post"
    and "\<not> spec_included newDate target t"
  shows "getBalanceAtDate newDate state target =
           getBalanceAtDate newDate (state\<lparr>transactions := pre @ post\<rparr>) target"
  using assms by (simp add: getBalanceAtDate_def forEach_body_contribution)

lemma spec_signedAmount_if:
  "spec_signedAmount t = (if type_t t = income then amount t else js_neg (amount t))"
  by (cases "type_t t") (simp_all add: spec_signedAmount_def)

subsection \<open>The scenario, evaluated\<close>

lemma scenario_ledger_eq:
  "scenario_ledger =
     \<lparr>initialBalance = Finite 1000, initialDate = Some jan1,
      transactions =
        [\<lparr>id_t = generateId ''0.4fzyo82mvyr'' 1717236000000, type_t = income,
          amount = Finite 500, date = feb1, description = ''salary'', recurrence = none\<rparr>,
         \<lparr>id_t = generateId ''0.k3j9x1c07q'' 1717236060000, type_t = expense,
          amount = Finite 200, date = jan1, description = ''rent'', recurrence = monthly\<rparr>],
      targetDate = None\<rparr>"
  by (simp add: scenario_ledger_def run_def effective_def emptyState_def
        setInitialBalance_def addTransaction_def income500_def expense200_def)

lemma late_anchor_ledger_eq:
  "late_anchor_ledger =
     \<lparr>initialBalance = Finite 1000, initialDate = Some mar1,
      transactions =
        [\<lparr>id_t = generateId ''0.k3j9x1c07q'' 1717236060000, type_t = expense,
          amount = Finite 200, date = jan1, description = ''rent'', recurrence = monthly\<rparr>],
      targetDate = None\<rparr>"
  by (simp add: late_anchor_ledger_def run_def effective_def emptyState_def
        setInitialBalance_def addTransaction_def expense200_def)

lemma tenths_ledger_eq:
  "tenths_ledger =
     \<lparr>initialBalance = Finite 0, initialDate = Some jan1,
      transactions =
        [\<lparr>id_t = generateId ''0.4fzyo82mvyr'' 1717236000000, type_t = income,
          amount = tenth, date = jan1, description = ''a'', recurrence = none\<rparr>,
         \<lparr>id_t = generateId ''0.k3j9x1c07q'' 1717236060000, type_t = income,
          amount = two_tenths, date = jan1, description = ''b'', recurrence = none\<rparr>,
         \<lparr>id_t = generateId ''0.9zq1m4t8wd'' 1717236120000, type_t = income,
          amount = three_tenths, date = jan1, description = ''c'', recurrence = none\<rparr>],
      targetDate = None\<rparr>"
  by (simp add: tenths_ledger_def run_def effective_def emptyState_def
        setInitialBalance_def addTransaction_def)

lemma scenario_dates:
  "scenario_newDate jan1 = \<lparr>getTime = 1704067200000, getFullYear = 2024, getMonth = 0\<rparr>"
  "scenario_newDate feb1 = \<lparr>getTime = 1706745600000, getFullYear = 2024, getMonth = 1\<rparr>"
  "scenario_newDate mar1 = \<lparr>getTime = 1709251200000, getFullYear = 2024, getMonth = 2\<rparr>"
  by (simp_all add: scenario_newDate_def)

lemmas scenario_eval =
  getBalanceAtDate_def falsy_def forEach_body_def calculateRecurringAmount_def
  getMonthsBetween_def getYearsBetween_def date_le_def date_gt_def scenario_dates Let_def
  js_int_exact round64_numeral

lemma scenario_balances:
  "getBalanceAtDate scenario_newDate scenario_ledger (scenario_newDate jan1) = Finite 800"
  "getBalanceAtDate scenario_newDate scenario_ledger (scenario_newDate feb1) = Finite 1100"
  "getBalanceAtDate scenario_newDate scenario_ledger (scenario_newDate mar1) = Finite 900"
  by (simp_all add: scenario_ledger_eq scenario_eval)

section \<open>Properties of the projection\<close>

text \<open>
  In the statements below a ledger has its \<open>initialDate\<close> set when the field holds a
  non-empty string, which is when the test \<open>!state.initialDate\<close> fails. The transaction \<open>t\<close>
  stands at any position \<open>pre @ t # post\<close> of the list: the running balance that reaches it
  is the balance of the ledger cut after \<open>pre\<close>, and the transactions of \<open>post\<close> follow it.
  Sums and products are the binary64 ones of the code, \<open>js_add\<close> and \<open>js_mul\<close>.
\<close>

text \<open>
  C1. In a ledger with \<open>initialDate\<close> set, a recurring transaction \<open>t\<close> dated on or before
  \<open>target\<close> adds to the running balance its signed amount times \<open>getMonthsBetween + 1\<close>
  (monthly) or \<open>getYearsBetween + 1\<close> (yearly); dated after \<open>target\<close> it adds nothing, and the
  balance is the one of the ledger without it. The months between are year*12+month
  arithmetic on the calendar fields, the years between the difference of the calendar
  years. At a target equal to its own start date the factor is 1: one occurrence.
\<close>

theorem recurring_contribution:
  assumes "initialDate state = Some i" and "i \<noteq> []"
    and "transactions state = pre @ t # post"
    and "recurrence t \<noteq> none"
  shows "getBalanceAtDate newDate state target =
           (if date_gt (newDate (date t)) target
            then getBalanceAtDate newDate (state\<lparr>transactions := pre @ post\<rparr>) target
            else fold (forEach_body newDate target) post
                   (js_add (getBalanceAtDate newDate (state\<lparr>transactions := pre\<rparr>) target)
                      (js_mul (if type_t t = income then amount t else js_neg (amount t))
                         (js_int ((if recurrence t = monthly
                                   then getMonthsBetween (newDate (date t)) target
                                   else getYearsBetween (newDate (date t)) target) + 1)))))
         \<and> getMonthsBetween (newDate (date t)) target
             = (getFullYear target * 12 + getMonth target)
               - (getFullYear (newDate (date t)) * 12 + getMonth (newDate (date t)))
         \<and> getYearsBetween (newDate (date t)) target
             = getFullYear target - getFullYear (newDate (date t))
         \<and> date_gt (newDate (date t)) target = (\<not> date_le (newDate (date t)) target)
         \<and> getBalanceAtDate newDate state (newDate (date t)) =
             fold (forEach_body newDate (newDate (date t))) post
               (js_add (getBalanceAtDate newDate (state\<lparr>transactions := pre\<rparr>)
                          (newDate (date t)))
                  (js_mul (if type_t t = income then amount t else js_neg (amount t))
                     (Finite 1)))"
proof -
  have c: "spec_contribution newDate target t =
      js_mul (if type_t t = income then amount t else js_neg (amount t))
        (js_int ((if recurrence t = monthly
                  then getMonthsBetween (newDate (date t)) target
                  else getYearsBetween (newDate (date t)) target) + 1))" for target
    using assms(4)
    by (cases "recurrence t")
       (simp_all add: spec_contribution_def spec_signedAmount_if spec_monthsBetween_eq
          spec_yearsBetween_eq)
  have one: "js_int ((if recurrence t = monthly
                      then getMonthsBetween (newDate (date t)) (newDate (date t))
                      else getYearsBetween (newDate (date t)) (newDate (date t))) + 1)
             = Finite 1"
    by (simp add: getMonthsBetween_def getYearsBetween_def js_int_def)
  have inc: "spec_included newDate target t = (\<not> date_gt (newDate (date t)) target)"
    by (simp add: spec_included_def date_gt_iff)
  have self: "spec_included newDate (newDate (date t)) t"
    by (simp add: spec_included_def date_le_def)
  have 1: "getBalanceAtDate newDate state target =
           (if date_gt (newDate (date t)) target
            then getBalanceAtDate newDate (state\<lparr>transactions := pre @ post\<rparr>) target
            else fold (forEach_body newDate target) post
                   (js_add (getBalanceAtDate newDate (state\<lparr>transactions := pre\<rparr>) target)
                      (spec_contribution newDate target t)))"
  proof (cases "date_gt (newDate (date t)) target")
    case True
    then show ?thesis
      using getBalanceAtDate_skip [OF assms(3), of newDate target] by (simp add: inc)
  next
    case False
    then show ?thesis
      using getBalanceAtDate_split [OF assms(1-3), of newDate target]
      by (simp add: forEach_body_contribution inc)
  qed
  have 2: "getBalanceAtDate newDate state (newDate (date t)) =
             fold (forEach_body newDate (newDate (date t))) post
               (js_add (getBalanceAtDate newDate (state\<lparr>transactions := pre\<rparr>)
                          (newDate (date t)))
                  (spec_contribution newDate (newDate (date t)) t))"
    using getBalanceAtDate_split [OF assms(1-3), of newDate "newDate (date t)"] self
    by (simp add: forEach_body_contribution)
  have m: "getMonthsBetween (newDate (date t)) target
             = (getFullYear target * 12 + getMonth target)
               - (getFullYear (newDate (date t)) * 12 + getMonth (newDate (date t)))"
    by (simp add: spec_monthsBetween_eq [symmetric] spec_monthsBetween_def)
  have y: "getYearsBetween (newDate (date t)) target
             = getFullYear target - getFullYear (newDate (date t))"
    by (simp add: getYearsBetween_def)
  note a = 1 [unfolded c]
  note b = 2 [unfolded c one]
  from a m y date_gt_iff b show ?thesis
    by (intro conjI)
qed

text \<open>
  In the scenario the monthly expense of 200 from 2024-01-01 adds \<open>-200 * 3\<close> to the
  running balance 1500 at 2024-03-01.
\<close>

theorem recurring_contribution_witness:
  "initialDate scenario_ledger = Some jan1 \<and> jan1 \<noteq> []
   \<and> transactions scenario_ledger =
       [\<lparr>id_t = generateId ''0.4fzyo82mvyr'' 1717236000000, type_t = income,
         amount = Finite 500, date = feb1, description = ''salary'', recurrence = none\<rparr>]
       @ \<lparr>id_t = generateId ''0.k3j9x1c07q'' 1717236060000, type_t = expense,
          amount = Finite 200, date = jan1, description = ''rent'', recurrence = monthly\<rparr> # []
   \<and> getBalanceAtDate scenario_newDate scenario_ledger (scenario_newDate mar1) =
       js_add (Finite 1500) (js_mul (Finite (- 200)) (Finite 3))
   \<and> js_add (Finite 1500) (js_mul (Finite (- 200)) (Finite 3)) = Finite 900"
  using recurring_contribution [of scenario_ledger jan1
      "[\<lparr>id_t = generateId ''0.4fzyo82mvyr'' 1717236000000, type_t = income,
         amount = Finite 500, date = feb1, description = ''salary'', recurrence = none\<rparr>]"
      "\<lparr>id_t = generateId ''0.k3j9x1c07q'' 1717236060000, type_t = expense,
          amount = Finite 200, date = jan1, description = ''rent'', recurrence = monthly\<rparr>"
      "[]" scenario_newDate "scenario_newDate mar1"]
  by (simp add: scenario_ledger_eq scenario_eval)

text \<open>
  C2. A ledger whose \<open>initialDate\<close> is \<open>null\<close> has balance 0 at every target date, whatever
  its initial balance and its transactions are.
\<close>

theorem balance_unset_initialDate:
  "getBalanceAtDate newDate
     \<lparr>initialBalance = b, initialDate = None, transactions = ts, targetDate = td\<rparr> target
   = Finite 0"
  by (simp add: getBalanceAtDate_def falsy_def)

text \<open>
  C3. In a ledger with \<open>initialDate\<close> set, a non-recurring transaction \<open>t\<close> adds its signed
  amount (\<open>+amount\<close> for income, \<open>-amount\<close> for expense) to the running balance, once,
  exactly when it is dated on or before \<open>target\<close>; dated after \<open>target\<close> it adds nothing, and
  the balance is the one of the ledger without it.
\<close>

theorem nonrecurring_contribution:
  assumes "initialDate state = Some i" and "i \<noteq> []"
    and "transactions state = pre @ t # post"
    and "recurrence t = none"
  shows "getBalanceAtDate newDate state target =
           (if date_le (newDate (date t)) target
            then fold (forEach_body newDate target) post
                   (js_add (getBalanceAtDate newDate (state\<lparr>transactions := pre\<rparr>) target)
                      (if type_t t = income then amount t else js_neg (amount t)))
            else getBalanceAtDate newDate (state\<lparr>transactions := pre @ post\<rparr>) target)
         \<and> date_gt (newDate (date t)) target = (\<not> date_le (newDate (date t)) target)"
proof -
  have c: "spec_contribution newDate target t =
      (if type_t t = income then amount t else js_neg (amount t))"
    using assms(4) by (simp add: spec_contribution_def spec_signedAmount_if)
  show ?thesis
  proof (cases "date_le (newDate (date t)) target")
    case True
    then show ?thesis
      using getBalanceAtDate_split [OF assms(1-3), of newDate target]
      by (simp add: forEach_body_contribution spec_included_def c date_gt_iff)
  next
    case False
    then show ?thesis
      using getBalanceAtDate_skip [OF assms(3), of newDate target]
      by (simp add: spec_included_def date_gt_iff)
  qed
qed

text \<open>
  In the scenario the income of 500 dated 2024-02-01 is added to the running balance 1000
  at 2024-03-01, before the expense; at 2024-01-01 the balance is the one of the ledger
  without it.
\<close>

theorem nonrecurring_contribution_witness:
  "initialDate scenario_ledger = Some jan1 \<and> jan1 \<noteq> []
   \<and> transactions scenario_ledger =
       [] @ \<lparr>id_t = generateId ''0.4fzyo82mvyr'' 1717236000000, type_t = income,
              amount = Finite 500, date = feb1, description = ''salary'', recurrence = none\<rparr>
       # [\<lparr>id_t = generateId ''0.k3j9x1c07q'' 1717236060000, type_t = expense,
          amount = Finite 200, date = jan1, description = ''rent'', recurrence = monthly\<rparr>]
   \<and> getBalanceAtDate scenario_newDate scenario_ledger (scenario_newDate mar1) =
       fold (forEach_body scenario_newDate (scenario_newDate mar1))
         [\<lparr>id_t = generateId ''0.k3j9x1c07q'' 1717236060000, type_t = expense,
           amount = Finite 200, date = jan1, description = ''rent'', recurrence = monthly\<rparr>]
         (js_add (Finite 1000) (Finite 500))
   \<and> getBalanceAtDate scenario_newDate scenario_ledger (scenario_newDate jan1) =
       getBalanceAtDate scenario_newDate
         (scenario_ledger\<lparr>transactions :=
            [\<lparr>id_t = generateId ''0.k3j9x1c07q'' 1717236060000, type_t = expense,
              amount = Finite 200, date = jan1, description = ''rent'',
              recurrence = monthly\<rparr>]\<rparr>)
         (scenario_newDate jan1)"
  using nonrecurring_contribution [of scenario_ledger jan1 "[]"
      "\<lparr>id_t = generateId ''0.4fzyo82mvyr'' 1717236000000, type_t = income,
         amount = Finite 500, date = feb1, description = ''salary'', recurrence = none\<rparr>"
      "[\<lparr>id_t = generateId ''0.k3j9x1c07q'' 1717236060000, type_t = expense,
          amount = Finite 200, date = jan1, description = ''rent'', recurrence = monthly\<rparr>]"
      scenario_newDate "scenario_newDate mar1"]
    nonrecurring_contribution [of scenario_ledger jan1 "[]"
      "\<lparr>id_t = generateId ''0.4fzyo82mvyr'' 1717236000000, type_t = income,
         amount = Finite 500, date = feb1, description = ''salary'', recurrence = none\<rparr>"
      "[\<lparr>id_t = generateId ''0.k3j9x1c07q'' 1717236060000, type_t = expense,
          amount = Finite 200, date = jan1, description = ''rent'', recurrence = monthly\<rparr>]"
      scenario_newDate "scenario_newDate jan1"]
  by (simp add: scenario_ledger_eq scenario_eval)

text \<open>
  C4. The scenario: initial balance 1000 anchored at 2024-01-01, a non-recurring income of
  500 dated 2024-02-01 and a monthly expense of 200 from 2024-01-01 give the balance
  \<open>1000 + 500 - 200 * 3 = 900\<close> at 2024-03-01.
\<close>

theorem scenario_balance:
  "getBalanceAtDate scenario_newDate scenario_ledger (scenario_newDate mar1)
     = Finite (1000 + 500 - 200 * 3)
   \<and> getBalanceAtDate scenario_newDate scenario_ledger (scenario_newDate mar1) = Finite 900"
  by (simp add: scenario_balances)

text \<open>
  C5. A ledger with \<open>initialDate\<close> set and no transaction has the balance \<open>initialBalance\<close>
  at every target date, a target before the initial date included.
\<close>

theorem empty_ledger_balance:
  assumes "initialDate state = Some i" and "i \<noteq> []" and "transactions state = []"
  shows "getBalanceAtDate newDate state target = initialBalance state"
  using assms by (simp add: getBalanceAtDate_def falsy_Some)

text \<open>Anchored at 2024-03-01 with 1000, the empty ledger has balance 1000 at 2024-01-01.\<close>

theorem empty_ledger_balance_witness:
  "initialDate (setInitialBalance emptyState (Finite 1000) mar1) = Some mar1 \<and> mar1 \<noteq> []
   \<and> transactions (setInitialBalance emptyState (Finite 1000) mar1) = []
   \<and> date_gt (scenario_newDate mar1) (scenario_newDate jan1)
   \<and> getBalanceAtDate scenario_newDate (setInitialBalance emptyState (Finite 1000) mar1)
        (scenario_newDate jan1) = Finite 1000"
  using empty_ledger_balance [of "setInitialBalance emptyState (Finite 1000) mar1" mar1
      scenario_newDate "scenario_newDate jan1"]
  by (simp add: setInitialBalance_def emptyState_def scenario_dates date_gt_def)

section \<open>The chart against the projection\<close>

lemma monthlyData_snoc:
  "monthlyData newDate (ts @ [t]) = monthlyData_step newDate (monthlyData newDate ts) t"
  by (simp add: monthlyData_def)

lemma monthlyData_bucket: "monthlyData newDate ts k = spec_monthBucket newDate ts k"
proof (induction ts rule: rev_induct)
  case Nil
  show ?case by (simp add: monthlyData_def spec_monthBucket_def)
next
  case (snoc t ts)
  show ?case
  proof (cases "monthKey (newDate (date t)) = k")
    case False
    then show ?thesis
      using snoc.IH
      by (simp add: monthlyData_snoc monthlyData_step_def spec_monthBucket_def Let_def)
  next
    case True
    then show ?thesis
      using snoc.IH
      by (cases "filter (\<lambda>t. monthKey (newDate (date t)) = k) ts = []")
         (simp_all add: monthlyData_snoc monthlyData_step_def spec_monthBucket_def Let_def)
  qed
qed

lemma monthlyData_step_recurrence:
  "monthlyData_step newDate acc (t\<lparr>recurrence := r\<rparr>) = monthlyData_step newDate acc t"
  by (simp add: monthlyData_step_def Let_def)

lemma foldl_monthlyData_recurrence:
  "foldl (monthlyData_step newDate) acc (map (\<lambda>t. t\<lparr>recurrence := r t\<rparr>) ts) =
   foldl (monthlyData_step newDate) acc ts"
  by (induction ts arbitrary: acc) (simp_all add: monthlyData_step_recurrence)

lemma monthKeys:
  "monthKey \<lparr>getTime = t, getFullYear = 2024, getMonth = 0\<rparr> = ''2024-01''"
  "monthKey \<lparr>getTime = t, getFullYear = 2024, getMonth = 1\<rparr> = ''2024-02''"
  "monthKey \<lparr>getTime = t, getFullYear = 2024, getMonth = 2\<rparr> = ''2024-03''"
  by (simp_all add: monthKey_def String_int_def padStart_def toStringRadix.simps
        digit_char_def)

lemma scenario_chart_buckets:
  "scenario_chart ''2024-01'' =
     Some \<lparr>income_m = Finite 0, expense_m = Finite 200, balance_m = Finite (- 200)\<rparr>"
  "scenario_chart ''2024-02'' =
     Some \<lparr>income_m = Finite 500, expense_m = Finite 0, balance_m = Finite 500\<rparr>"
  "scenario_chart ''2024-03'' = None"
  by (simp_all add: scenario_chart_def scenario_ledger_eq filteredTransactions_def
        date_ge_def scenario_dates monthlyData_def monthlyData_step_def monthKeys Let_def
        js_sub_def round64_numeral)

text \<open>
  C6. The monthly aggregation of the chart puts every transaction into the bucket of the
  month of its own date and nowhere else, adding its amount to the income or to the expense
  of that bucket in the order of the list; the result does not depend on any \<open>recurrence\<close>
  field. So it disagrees with the projection on the scenario, whose monthly expense of 200
  starts in January: the chart books it in January only, its February bucket holds the
  income of 500 and no expense and it has no March bucket, while the balance goes from 800
  at 2024-01-01 to \<open>800 + 500 - 200\<close> at 2024-02-01 and to \<open>1100 - 200\<close> at 2024-03-01.
\<close>

theorem chart_ignores_recurrence:
  "monthlyData newDate ts k = spec_monthBucket newDate ts k
   \<and> monthlyData newDate (map (\<lambda>t. t\<lparr>recurrence := r t\<rparr>) ts) = monthlyData newDate ts
   \<and> recurrence (transactions scenario_ledger ! 1) = monthly
   \<and> scenario_chart ''2024-01'' =
       Some \<lparr>income_m = Finite 0, expense_m = Finite 200, balance_m = Finite (- 200)\<rparr>
   \<and> scenario_chart ''2024-02'' =
       Some \<lparr>income_m = Finite 500, expense_m = Finite 0, balance_m = Finite 500\<rparr>
   \<and> scenario_chart ''2024-03'' = None
   \<and> getBalanceAtDate scenario_newDate scenario_ledger (scenario_newDate jan1) = Finite 800
   \<and> getBalanceAtDate scenario_newDate scenario_ledger (scenario_newDate feb1)
       = Finite (800 + 500 - 200)
   \<and> getBalanceAtDate scenario_newDate scenario_ledger (scenario_newDate mar1)
       = Finite (1100 - 200)"
proof -
  have "monthlyData newDate (map (\<lambda>t. t\<lparr>recurrence := r t\<rparr>) ts) = monthlyData newDate ts"
    by (simp add: monthlyData_def foldl_monthlyData_recurrence)
  moreover have "recurrence (transactions scenario_ledger ! 1) = monthly"
    by (simp add: scenario_ledger_eq)
  ultimately show ?thesis
    by (simp add: monthlyData_bucket scenario_chart_buckets scenario_balances)
qed

section \<open>Ledger mutations and ids\<close>

text \<open>
  C7. Deleting an id that no transaction of the ledger carries returns the ledger
  unchanged: same initial balance, initial date, target date and transaction list. The
  operation has no failing branch.
\<close>

theorem delete_unknown_id:
  assumes "i \<notin> set (map id_t (transactions state))"
  shows "deleteTransaction state i = state"
proof -
  have "filter (\<lambda>t. id_t t \<noteq> i) (transactions state) = transactions state"
    using assms by (auto intro: filter_True)
  then show ?thesis
    by (simp add: deleteTransaction_def)
qed

theorem delete_unknown_id_witness:
  "''no-such-id'' \<notin> set (map id_t (transactions scenario_ledger))
   \<and> transactions scenario_ledger \<noteq> []
   \<and> deleteTransaction scenario_ledger ''no-such-id'' = scenario_ledger"
  using delete_unknown_id [of "''no-such-id''" scenario_ledger]
  by (simp add: scenario_ledger_eq generateId_def)

subsection \<open>Order of the transactions\<close>

lemma foldl_js_add_grid:
  assumes "- 1074 \<le> g" and "g \<le> 971"
  shows "\<bar>k0\<bar> + sum_list (map abs ks) < 2 ^ 53 \<Longrightarrow>
         foldl js_add (Finite (of_int k0 * 2 powi g)) (map (\<lambda>k. Finite (of_int k * 2 powi g)) ks)
           = Finite (of_int (k0 + sum_list ks) * 2 powi g)"
proof (induction ks arbitrary: k0)
  case Nil
  then show ?case by simp
next
  case (Cons k ks)
  have nn: "0 \<le> sum_list (map abs ks)"
    by (rule sum_list_nonneg) auto
  have tri: "\<bar>k0 + k\<bar> \<le> \<bar>k0\<bar> + \<bar>k\<bar>"
    by (rule abs_triangle_ineq)
  from Cons.prems nn tri have "\<bar>k0 + k\<bar> < 2 ^ 53" by simp
  from round64_grid [OF this assms]
  have step: "round64 (real_of_int k0 * 2 powi g + real_of_int k * 2 powi g)
                = Finite (real_of_int (k0 + k) * 2 powi g)"
    by (simp add: distrib_right)
  from Cons.prems tri have "\<bar>k0 + k\<bar> + sum_list (map abs ks) < 2 ^ 53"
    by simp
  from Cons.IH [OF this] show ?case
    by (simp add: step add.assoc)
qed

lemma grid_permutation:
  assumes "mset xs = mset (map (\<lambda>k. Finite (real_of_int k * 2 powi g)) ks)"
  shows "\<exists>ks'. xs = map (\<lambda>k. Finite (real_of_int k * 2 powi g)) ks' \<and> mset ks' = mset ks"
proof -
  let ?f = "\<lambda>k. Finite (real_of_int k * 2 powi g)"
  have inj: "inj ?f" by (simp add: inj_def)
  have "set xs = ?f ` set ks"
    using assms by (metis mset_eq_setD set_map)
  then have x: "?f (inv ?f x) = x" if "x \<in> set xs" for x
    using that by (auto simp: inv_f_f [OF inj])
  have "map ?f (map (inv ?f) xs) = xs"
    using x by (simp add: map_idI)
  moreover have "mset (map (inv ?f) xs) = mset ks"
  proof -
    have "mset (map (inv ?f) xs) = image_mset (inv ?f) (mset (map ?f ks))"
      using assms by simp
    also have "\<dots> = mset (map (inv ?f \<circ> ?f) ks)"
      by (simp add: multiset.map_comp)
    also have "inv ?f \<circ> ?f = id"
      using inj by (rule inv_o_cancel)
    finally show ?thesis by simp
  qed
  ultimately show ?thesis by metis
qed

text \<open>
  C8, as the code has it. The projection adds the contributions in the order of the
  list, in binary64, so the order can change the rounding. When the initial balance and
  every contribution that is added are whole multiples of one power of two \<open>2^g\<close> (whole
  numbers for \<open>g = 0\<close>) and the magnitudes of the multiples sum to less than \<open>2^53\<close>, every
  sum is exact and every permutation of the transaction list gives the same balance: the
  initial balance plus the sum of the contributions.
\<close>

theorem balance_permutation_grid:
  assumes "mset ts = mset (transactions state)"
    and "- 1074 \<le> g" and "g \<le> 971"
    and "initialBalance state = Finite (of_int k0 * 2 powi g)"
    and "map (spec_contribution newDate target)
           (filter (spec_included newDate target) (transactions state))
         = map (\<lambda>k. Finite (of_int k * 2 powi g)) ks"
    and "\<bar>k0\<bar> + sum_list (map abs ks) < 2 ^ 53"
  shows "getBalanceAtDate newDate (state\<lparr>transactions := ts\<rparr>) target =
           getBalanceAtDate newDate state target
         \<and> getBalanceAtDate newDate state target =
           (if falsy (initialDate state) then Finite 0
            else Finite (of_int (k0 + sum_list ks) * 2 powi g))"
proof -
  let ?c = "\<lambda>l. map (spec_contribution newDate target)
                  (filter (spec_included newDate target) l)"
  have "mset (?c ts) = mset (?c (transactions state))"
    using assms(1) by simp
  with assms(5) have "mset (?c ts) = mset (map (\<lambda>k. Finite (real_of_int k * 2 powi g)) ks)"
    by simp
  from grid_permutation [OF this] obtain ks'
    where ks': "?c ts = map (\<lambda>k. Finite (real_of_int k * 2 powi g)) ks'" "mset ks' = mset ks"
    by blast
  from ks'(2) have s: "sum_list ks' = sum_list ks"
    by (metis sum_mset_sum_list)
  from ks'(2) have "mset (map abs ks') = mset (map abs ks)" by simp
  then have a: "sum_list (map abs ks') = sum_list (map abs ks)"
    by (metis sum_mset_sum_list)
  have 1: "foldl js_add (initialBalance state) (?c (transactions state))
             = Finite (of_int (k0 + sum_list ks) * 2 powi g)"
    using foldl_js_add_grid [OF assms(2,3,6)] by (simp only: assms(4,5))
  have "\<bar>k0\<bar> + sum_list (map abs ks') < 2 ^ 53"
    using assms(6) by (simp only: a)
  from foldl_js_add_grid [OF assms(2,3) this]
  have 2: "foldl js_add (initialBalance state) (?c ts)
             = Finite (of_int (k0 + sum_list ks) * 2 powi g)"
    by (simp only: assms(4) ks'(1) s)
  show ?thesis
    by (simp add: getBalanceAtDate_def fold_forEach_body 1 2)
qed

text \<open>
  The scenario ledger, in reverse order, with \<open>g = 0\<close>: initial balance 1000, contributions
  500 and \<open>-600\<close> at 2024-03-01.
\<close>

theorem balance_permutation_grid_witness:
  "mset (rev (transactions scenario_ledger)) = mset (transactions scenario_ledger)
   \<and> rev (transactions scenario_ledger) \<noteq> transactions scenario_ledger
   \<and> initialBalance scenario_ledger = Finite (of_int 1000 * 2 powi 0)
   \<and> map (spec_contribution scenario_newDate (scenario_newDate mar1))
        (filter (spec_included scenario_newDate (scenario_newDate mar1))
           (transactions scenario_ledger))
      = map (\<lambda>k. Finite (of_int k * 2 powi 0)) [500, - 600]
   \<and> \<bar>1000 :: int\<bar> + sum_list (map abs [500, - 600]) < 2 ^ 53
   \<and> getBalanceAtDate scenario_newDate
        (scenario_ledger\<lparr>transactions := rev (transactions scenario_ledger)\<rparr>)
        (scenario_newDate mar1) = Finite 900"
  using balance_permutation_grid [of "rev (transactions scenario_ledger)" scenario_ledger
      0 1000 scenario_newDate "scenario_newDate mar1" "[500, - 600]"]
  by (simp add: scenario_ledger_eq spec_contribution_def spec_included_def
        spec_signedAmount_def spec_monthsBetween_def scenario_eval)

text \<open>
  C8 as written fails. With initial balance 0 and incomes of 0.1, 0.2 and 0.3, all dated
  2024-01-01, the balance at 2024-03-01 is 0.6000000000000001; with the same transactions
  in reverse order it is 0.6.
\<close>

theorem order_changes_balance:
  "initialDate tenths_ledger = Some jan1
   \<and> mset (rev (transactions tenths_ledger)) = mset (transactions tenths_ledger)
   \<and> getBalanceAtDate scenario_newDate tenths_ledger (scenario_newDate mar1)
       = Finite (5404319552844596 / 9007199254740992)
   \<and> getBalanceAtDate scenario_newDate
        (tenths_ledger\<lparr>transactions := rev (transactions tenths_ledger)\<rparr>)
        (scenario_newDate mar1)
       = Finite (5404319552844595 / 9007199254740992)
   \<and> getBalanceAtDate scenario_newDate
        (tenths_ledger\<lparr>transactions := rev (transactions tenths_ledger)\<rparr>)
        (scenario_newDate mar1)
       \<noteq> getBalanceAtDate scenario_newDate tenths_ledger (scenario_newDate mar1)"
proof -
  have f: "getBalanceAtDate scenario_newDate tenths_ledger (scenario_newDate mar1)
       = js_add (js_add (js_add (Finite 0) tenth) two_tenths) three_tenths"
    by (simp add: tenths_ledger_eq getBalanceAtDate_def falsy_def forEach_body_def
          date_le_def date_gt_def scenario_dates Let_def)
  have 1: "getBalanceAtDate scenario_newDate tenths_ledger (scenario_newDate mar1)
       = Finite (5404319552844596 / 9007199254740992)"
    unfolding f by (simp only: tenths_forwards)
  have b: "getBalanceAtDate scenario_newDate
        (tenths_ledger\<lparr>transactions := rev (transactions tenths_ledger)\<rparr>)
        (scenario_newDate mar1)
       = js_add (js_add (js_add (Finite 0) three_tenths) two_tenths) tenth"
    by (simp add: tenths_ledger_eq getBalanceAtDate_def falsy_def forEach_body_def
          date_le_def date_gt_def scenario_dates Let_def)
  have 2: "getBalanceAtDate scenario_newDate
        (tenths_ledger\<lparr>transactions := rev (transactions tenths_ledger)\<rparr>)
        (scenario_newDate mar1)
       = Finite (5404319552844595 / 9007199254740992)"
    unfolding b by (simp only: tenths_backwards)
  have 3: "initialDate tenths_ledger = Some jan1"
    by (simp add: tenths_ledger_eq)
  show ?thesis
    unfolding 1 2 using 3 by simp
qed

subsection \<open>Ids\<close>

lemma digit_char_inj:
  assumes "a < 36" and "b < 36" and "digit_char a = digit_char b"
  shows "a = b"
proof -
  have d: "distinct ''0123456789abcdefghijklmnopqrstuvwxyz''" by simp
  have l: "length ''0123456789abcdefghijklmnopqrstuvwxyz'' = 36" by simp
  from assms(3) have "''0123456789abcdefghijklmnopqrstuvwxyz'' ! a
                      = ''0123456789abcdefghijklmnopqrstuvwxyz'' ! b"
    using assms(1,2) by (simp add: digit_char_def)
  with d l assms(1,2) show ?thesis
    by (simp only: nth_eq_iff_index_eq)
qed

lemma toStringRadix_small: "n < 36 \<Longrightarrow> toStringRadix 36 n = [digit_char n]"
  by (subst toStringRadix.simps) simp

lemma toStringRadix_big:
  "36 \<le> n \<Longrightarrow> toStringRadix 36 n = toStringRadix 36 (n div 36) @ [digit_char (n mod 36)]"
  by (subst toStringRadix.simps) simp

lemma toStringRadix_length:
  "36 ^ k \<le> n \<Longrightarrow> n < 36 ^ Suc k \<Longrightarrow> length (toStringRadix 36 n) = Suc k"
proof (induction k arbitrary: n)
  case 0
  then show ?case by (simp add: toStringRadix_small)
next
  case (Suc k)
  have "(36::nat) \<le> 36 ^ Suc k"
    using power_increasing [of 1 "Suc k" "36::nat"] by simp
  from this Suc.prems(1) have big: "36 \<le> n" by (rule order_trans)
  have "(36::nat) ^ Suc k div 36 \<le> n div 36"
    using Suc.prems(1) by (rule div_le_mono)
  then have 1: "36 ^ k \<le> n div 36" by simp
  have "n < 36 ^ Suc k * 36" using Suc.prems(2) by (simp add: mult.commute)
  then have 2: "n div 36 < 36 ^ Suc k" by (rule less_mult_imp_div_less)
  note 1 2
  from Suc.IH [OF this] big show ?case
    by (simp add: toStringRadix_big)
qed

lemma toStringRadix_nonempty: "toStringRadix 36 n \<noteq> []"
  by (subst toStringRadix.simps) simp

lemma toStringRadix_inj: "toStringRadix 36 n = toStringRadix 36 m \<Longrightarrow> n = m"
proof (induction n arbitrary: m rule: less_induct)
  case (less n)
  show ?case
  proof (cases "n < 36")
    case n: True
    show ?thesis
    proof (cases "m < 36")
      case True
      with n less.prems show ?thesis
        by (simp add: toStringRadix_small digit_char_inj)
    next
      case False
      with n less.prems toStringRadix_nonempty [of "m div 36"] show ?thesis
        by (simp add: toStringRadix_small toStringRadix_big)
    qed
  next
    case n: False
    show ?thesis
    proof (cases "m < 36")
      case True
      with n less.prems toStringRadix_nonempty [of "n div 36"] show ?thesis
        by (simp add: toStringRadix_small toStringRadix_big)
    next
      case False
      with n less.prems
      have q: "toStringRadix 36 (n div 36) = toStringRadix 36 (m div 36)"
        and r: "digit_char (n mod 36) = digit_char (m mod 36)"
        by (simp_all add: toStringRadix_big)
      from n have "n div 36 < n" by simp
      from less.IH [OF this q] have "n div 36 = m div 36" .
      moreover from r have "n mod 36 = m mod 36"
        by (rule digit_char_inj [rotated 2]) simp_all
      ultimately show ?thesis
        by (metis div_mult_mod_eq)
    qed
  qed
qed

lemma generateId_draw_id: "generateId rnd now = draw_id (drop 2 rnd, now)"
  by (simp add: generateId_def draw_id_def)

lemma draw_id_inj_on:
  assumes "\<forall>d \<in> S. length (toStringRadix 36 (snd d)) = L"
  shows "inj_on draw_id S"
proof (rule inj_onI)
  fix x y
  assume x: "x \<in> S" and y: "y \<in> S" and e: "draw_id x = draw_id y"
  from assms x y
  have "length (toStringRadix 36 (snd x)) = length (toStringRadix 36 (snd y))"
    by simp
  with e have "fst x = fst y" and "toStringRadix 36 (snd x) = toStringRadix 36 (snd y)"
    by (simp_all add: draw_id_def)
  then show "x = y"
    by (simp add: prod_eq_iff toStringRadix_inj)
qed

lemma ids_addTransaction:
  "map id_t (transactions (addTransaction rnd now state d)) =
     map id_t (transactions state) @ [drop 2 rnd @ toStringRadix 36 now]"
  by (simp add: addTransaction_def generateId_def)

lemma distinct_foldl_apply_op:
  assumes "inj_on draw_id (P \<union> set (draws ops))"
    and "distinct (draws ops)"
    and "set (draws ops) \<inter> P = {}"
    and "distinct (map id_t (transactions state))"
    and "set (map id_t (transactions state)) \<subseteq> draw_id ` P"
  shows "distinct (map id_t (transactions (foldl apply_op state ops)))"
  using assms
proof (induction ops arbitrary: state P)
  case Nil
  then show ?case by simp
next
  case (Cons c ops)
  show ?case
  proof (cases c)
    case (AddTransaction rnd now d)
    let ?x = "(drop 2 rnd, now)"
    let ?s = "addTransaction rnd now state d"
    from Cons.prems(2,3) have x: "?x \<notin> P" "?x \<notin> set (draws ops)" "distinct (draws ops)"
      by (auto simp: AddTransaction)
    have u: "insert ?x P \<union> set (draws ops) = P \<union> set (draws (c # ops))"
      by (auto simp: AddTransaction)
    have i: "inj_on draw_id (insert ?x P \<union> set (draws ops))"
      unfolding u by (rule Cons.prems(1))
    have new: "draw_id ?x \<notin> draw_id ` P"
    proof
      assume "draw_id ?x \<in> draw_id ` P"
      then obtain y where y: "y \<in> P" "draw_id ?x = draw_id y" by auto
      with i have "?x = y" by (auto dest: inj_onD)
      with y(1) x(1) show False by simp
    qed
    have ids: "map id_t (transactions ?s) = map id_t (transactions state) @ [draw_id ?x]"
      by (simp add: ids_addTransaction draw_id_def)
    have 1: "distinct (map id_t (transactions ?s))"
      using Cons.prems(4,5) new by (auto simp: ids)
    have 2: "set (map id_t (transactions ?s)) \<subseteq> draw_id ` insert ?x P"
      using Cons.prems(5) by (auto simp: ids)
    have 3: "set (draws ops) \<inter> insert ?x P = {}"
      using Cons.prems(3) x(2) by (auto simp: AddTransaction)
    from Cons.IH [OF i x(3) 3 1 2] show ?thesis
      by (simp add: AddTransaction)
  next
    case (DeleteTransaction i)
    have 1: "distinct (map id_t (transactions (deleteTransaction state i)))"
      using Cons.prems(4) by (simp add: deleteTransaction_def distinct_map_filter)
    have 2: "set (map id_t (transactions (deleteTransaction state i))) \<subseteq> draw_id ` P"
      using Cons.prems(5) by (auto simp: deleteTransaction_def)
    from Cons.prems(1-3) have "inj_on draw_id (P \<union> set (draws ops))"
      "distinct (draws ops)" "set (draws ops) \<inter> P = {}"
      by (simp_all add: DeleteTransaction)
    from Cons.IH [OF this 1 2] show ?thesis
      by (simp add: DeleteTransaction)
  next
    case (SetInitialBalance b d)
    have 1: "distinct (map id_t (transactions (setInitialBalance state b d)))"
      using Cons.prems(4) by (simp add: setInitialBalance_def)
    have 2: "set (map id_t (transactions (setInitialBalance state b d))) \<subseteq> draw_id ` P"
      using Cons.prems(5) by (simp add: setInitialBalance_def)
    from Cons.prems(1-3) have "inj_on draw_id (P \<union> set (draws ops))"
      "distinct (draws ops)" "set (draws ops) \<inter> P = {}"
      by (simp_all add: SetInitialBalance)
    from Cons.IH [OF this 1 2] show ?thesis
      by (simp add: SetInitialBalance)
  next
    case ClearAll
    have 1: "distinct (map id_t (transactions (clearAllData state)))"
      by (simp add: clearAllData_def emptyState_def)
    have 2: "set (map id_t (transactions (clearAllData state))) \<subseteq> draw_id ` P"
      by (simp add: clearAllData_def emptyState_def)
    from Cons.prems(1-3) have "inj_on draw_id (P \<union> set (draws ops))"
      "distinct (draws ops)" "set (draws ops) \<inter> P = {}"
      by (simp_all add: ClearAll)
    from Cons.IH [OF this 1 2] show ?thesis
      by (simp add: ClearAll)
  qed
qed

text \<open>
  C9, as the code has it. \<open>addTransaction\<close> gives the draft the id
  \<open>Math.random().toString(36).substring(2) + Date.now().toString(36)\<close>, computed without
  looking at the ledger, and appends it. From the empty ledger, after any history of
  \<open>addTransaction\<close>, \<open>deleteTransaction\<close>, \<open>setInitialBalance\<close> and \<open>clearAllData\<close> calls in
  which the clock readings of the additions have base-36 texts of one length (as all
  readings from \<open>36^7\<close> up to \<open>36^8\<close> milliseconds have, the years 1972 to 2059) and no
  two additions read both the same random suffix and the same clock reading, no two
  transactions share an id.
\<close>

theorem distinct_ids_distinct_draws:
  assumes "distinct (draws (effective renders))"
    and "\<forall>d \<in> set (draws (effective renders)). length (toStringRadix 36 (snd d)) = L"
  shows "map id_t (transactions (addTransaction rnd now state d)) =
           map id_t (transactions state) @ [drop 2 rnd @ toStringRadix 36 now]
         \<and> distinct (map id_t (transactions (run emptyState renders)))"
proof -
  have "inj_on draw_id (set (draws (effective renders)))"
    using assms(2) by (rule draw_id_inj_on)
  then have "inj_on draw_id ({} \<union> set (draws (effective renders)))"
    by simp
  moreover have "set (draws (effective renders)) \<inter> {} = {}" by simp
  moreover have "distinct (map id_t (transactions emptyState))"
    and "set (map id_t (transactions emptyState)) \<subseteq> draw_id ` {}"
    by (simp_all add: emptyState_def)
  ultimately have "distinct (map id_t (transactions
                     (foldl apply_op emptyState (effective renders))))"
    using assms(1) by (intro distinct_foldl_apply_op [where P = "{}"])
  then show ?thesis
    by (simp add: run_def ids_addTransaction)
qed

text \<open>
  The scenario with a deletion added: two additions with different random suffixes, both
  clocks with eight base-36 digits.
\<close>

theorem distinct_ids_distinct_draws_witness:
  "distinct (draws (effective
     [[SetInitialBalance (Finite 1000) jan1],
      [AddTransaction ''0.4fzyo82mvyr'' 1717236000000 income500],
      [AddTransaction ''0.k3j9x1c07q'' 1717236060000 expense200],
      [DeleteTransaction ''no-such-id'']]))
   \<and> length (toStringRadix 36 1717236000000) = 8
   \<and> length (toStringRadix 36 1717236060000) = 8
   \<and> distinct (map id_t (transactions (run emptyState
       [[SetInitialBalance (Finite 1000) jan1],
        [AddTransaction ''0.4fzyo82mvyr'' 1717236000000 income500],
        [AddTransaction ''0.k3j9x1c07q'' 1717236060000 expense200],
        [DeleteTransaction ''no-such-id'']])))"
  using distinct_ids_distinct_draws [of
      "[[SetInitialBalance (Finite 1000) jan1],
        [AddTransaction ''0.4fzyo82mvyr'' 1717236000000 income500],
        [AddTransaction ''0.k3j9x1c07q'' 1717236060000 expense200],
        [DeleteTransaction ''no-such-id'']]" 8]
  by (simp add: effective_def toStringRadix.simps)

text \<open>
  C9 as written fails: nothing compares the generated id with the ledger. Two additions
  that read the same random text in the same millisecond give the second transaction the
  id of the first; and so do two additions whose clock texts differ in length when the
  longer random suffix makes up for it (\<open>ab\<close> and \<open>c\<close> against \<open>a\<close> and \<open>bc\<close>).
\<close>

theorem duplicate_ids:
  "generateId ''0.4fzyo82mvyr'' 1717236000000
     \<in> set (map id_t (transactions
         (run emptyState [[AddTransaction ''0.4fzyo82mvyr'' 1717236000000 income500]])))
   \<and> \<not> distinct (map id_t (transactions
         (run emptyState [[AddTransaction ''0.4fzyo82mvyr'' 1717236000000 income500],
                          [AddTransaction ''0.4fzyo82mvyr'' 1717236000000 expense200]])))
   \<and> \<not> distinct (map id_t (transactions
         (run emptyState [[AddTransaction ''0.ab'' 12 income500],
                          [AddTransaction ''0.a'' 408 expense200]])))"
  by (simp add: run_def effective_def ids_addTransaction emptyState_def addTransaction_def
        generateId_def toStringRadix.simps digit_char_def)

text \<open>
  C10. In a ledger with \<open>initialDate\<close> set, a transaction dated strictly before the initial
  date and on or before \<open>target\<close> adds its full contribution to the running balance: the
  signed amount when it does not recur, the signed amount times the number of started
  months or years when it does. The initial date is never compared with anything:
  replacing it by any other non-empty string leaves the balance unchanged.
\<close>

theorem early_transaction_contributes:
  assumes "initialDate state = Some i" and "i \<noteq> []" and "j \<noteq> []"
    and "transactions state = pre @ t # post"
    and "date_gt (newDate i) (newDate (date t))"
    and "date_le (newDate (date t)) target"
  shows "getBalanceAtDate newDate state target =
           fold (forEach_body newDate target) post
             (js_add (getBalanceAtDate newDate (state\<lparr>transactions := pre\<rparr>) target)
                (case recurrence t of
                   none \<Rightarrow> (if type_t t = income then amount t else js_neg (amount t))
                 | monthly \<Rightarrow>
                     js_mul (if type_t t = income then amount t else js_neg (amount t))
                       (js_int (getMonthsBetween (newDate (date t)) target + 1))
                 | yearly \<Rightarrow>
                     js_mul (if type_t t = income then amount t else js_neg (amount t))
                       (js_int (getYearsBetween (newDate (date t)) target + 1))))
         \<and> getBalanceAtDate newDate (state\<lparr>initialDate := Some j\<rparr>) target =
           getBalanceAtDate newDate state target"
proof -
  have "spec_contribution newDate target t =
      (case recurrence t of
         none \<Rightarrow> (if type_t t = income then amount t else js_neg (amount t))
       | monthly \<Rightarrow>
           js_mul (if type_t t = income then amount t else js_neg (amount t))
             (js_int (getMonthsBetween (newDate (date t)) target + 1))
       | yearly \<Rightarrow>
           js_mul (if type_t t = income then amount t else js_neg (amount t))
             (js_int (getYearsBetween (newDate (date t)) target + 1)))"
    by (cases "recurrence t")
       (simp_all add: spec_contribution_def spec_signedAmount_if spec_monthsBetween_eq
          spec_yearsBetween_eq)
  moreover have "getBalanceAtDate newDate (state\<lparr>initialDate := Some j\<rparr>) target =
           getBalanceAtDate newDate state target"
    using assms(1-3) by (simp add: getBalanceAtDate_def falsy_Some)
  ultimately show ?thesis
    using getBalanceAtDate_split [OF assms(1,2,4), of newDate target] assms(6)
    by (simp add: forEach_body_contribution spec_included_def)
qed

text \<open>
  Anchored at 2024-03-01 with 1000, the monthly expense of 200 from 2024-01-01 takes
  \<open>200 * 3\<close> off the balance at 2024-03-01.
\<close>

theorem early_transaction_contributes_witness:
  "initialDate late_anchor_ledger = Some mar1 \<and> mar1 \<noteq> [] \<and> jan1 \<noteq> []
   \<and> transactions late_anchor_ledger =
       [] @ \<lparr>id_t = generateId ''0.k3j9x1c07q'' 1717236060000, type_t = expense,
              amount = Finite 200, date = jan1, description = ''rent'',
              recurrence = monthly\<rparr> # []
   \<and> date_gt (scenario_newDate mar1) (scenario_newDate jan1)
   \<and> date_le (scenario_newDate jan1) (scenario_newDate mar1)
   \<and> getBalanceAtDate scenario_newDate late_anchor_ledger (scenario_newDate mar1)
       = js_add (Finite 1000) (js_mul (Finite (- 200)) (Finite 3))
   \<and> js_add (Finite 1000) (js_mul (Finite (- 200)) (Finite 3)) = Finite 400
   \<and> getBalanceAtDate scenario_newDate (late_anchor_ledger\<lparr>initialDate := Some jan1\<rparr>)
        (scenario_newDate mar1)
       = getBalanceAtDate scenario_newDate late_anchor_ledger (scenario_newDate mar1)"
  using early_transaction_contributes [of late_anchor_ledger mar1 jan1 "[]"
      "\<lparr>id_t = generateId ''0.k3j9x1c07q'' 1717236060000, type_t = expense,
         amount = Finite 200, date = jan1, description = ''rent'', recurrence = monthly\<rparr>"
      "[]" scenario_newDate "scenario_newDate mar1"]
  by (simp add: late_anchor_ledger_eq scenario_eval)

end
